theory Spec2Isabelle
  imports Complex_Main
begin

section \<open>Notification gateway: data model\<close>

text \<open>
  The embedding follows the notification routes of the API gateway
  (\<^verbatim>\<open>notificationRoutes\<close> and its helper functions) and the JSON schemas of
  the gateway. Strings stay strings; ISO timestamps are kept as the millisecond
  value they render (\<^verbatim>\<open>Date.now()\<close>); JavaScript numbers are integers here,
  since the schema admits only integer priorities and every value computed from
  them stays far below \<open>2^53\<close>.
\<close>

type_synonym timestamp = int

type_synonym payload = "(string \<times> string) list"

text \<open>\<^verbatim>\<open>notification_type: enum ['email', 'push']\<close> of the request schema.\<close>

datatype notification_type = Email | Push

text \<open>The status strings used by the routes, the schemas and the lifecycle.\<close>

datatype status =
  Pending | Queued | Processing | Sent | Delivered | Failed | Dead_lettered | Skipped

record notification_request =
  rq_notification_type :: notification_type
  rq_user_id :: string
  rq_template_code :: string
  rq_variables :: payload
  rq_request_id :: string
  rq_priority :: "int option"
  rq_metadata :: "payload option"

record preferences =
  pref_email :: bool
  pref_push :: bool

record user =
  usr_user_id :: string
  usr_name :: string
  usr_email :: string
  usr_preferences :: preferences

record template =
  tpl_template_code :: string
  tpl_subject :: string
  tpl_content :: string

text \<open>What the intake handler reads of an already processed notification.\<close>

record existing_notification =
  ex_notification_id :: string
  ex_status :: status
  ex_created_at :: timestamp

text \<open>The object handed to \<^verbatim>\<open>createNotification\<close>.\<close>

record notification =
  nt_notification_id :: string
  nt_request_id :: string
  nt_user_id :: string
  nt_notification_type :: notification_type
  nt_template_code :: string
  nt_variables :: payload
  nt_priority :: int
  nt_metadata :: "payload option"
  nt_status :: status

text \<open>The object handed to \<^verbatim>\<open>queueNotification\<close>.\<close>

record queue_message =
  qm_notification_id :: string
  qm_notification_type :: notification_type
  qm_user_id :: string
  qm_template_code :: string
  qm_variables :: payload
  qm_priority :: int
  qm_metadata :: "payload option"

text \<open>The record \<^verbatim>\<open>getNotificationById\<close> returns.\<close>

record notification_view =
  nv_notification_id :: string
  nv_user_id :: string
  nv_notification_type :: notification_type
  nv_status :: status
  nv_created_at :: timestamp
  nv_updated_at :: timestamp
  nv_sent_at :: "timestamp option"
  nv_delivered_at :: "timestamp option"
  nv_error :: "string option"
  nv_retry_count :: nat


record status_update =
  su_status :: status
  su_timestamp :: timestamp
  su_error :: "string option"

record response_data =
  rs_notification_id :: string
  rs_status :: status
  rs_queued_at :: timestamp
  rs_estimated_delivery :: "timestamp option"

text \<open>
  The bodies the handlers return, and \<open>Bad_request\<close> for the reply the framework
  sends by itself when a request does not match the schema of its route.
\<close>

datatype reply_body =
  Success_data response_data string
| Success_view notification_view string
| Success_message string
| Failure string string
| Bad_request

text \<open>A reply is the HTTP status code (200 unless \<^verbatim>\<open>reply.code\<close> set it) and the body.\<close>

type_synonym reply = "nat \<times> reply_body"

section \<open>The world the handlers run in\<close>

text \<open>
  The helper functions of the routes file write to the console only, so the
  console is the whole effect trace of a handler; \<^verbatim>\<open>uuidv4()\<close> and
  \<^verbatim>\<open>new Date()\<close> draw from sources the handler does not control, kept as
  the sequence of values they will return and the number of draws made so far.
\<close>

datatype log_entry =
  Creating_notification notification
| Queueing_notification queue_message
| Updating_notification_status string status_update
| Log_error string

record world =
  logs :: "log_entry list"
  uuid_src :: "nat \<Rightarrow> string"
  uuid_calls :: nat
  clock :: "nat \<Rightarrow> timestamp"
  clock_reads :: nat

definition uuidv4 :: "world \<Rightarrow> string \<times> world" where
  "uuidv4 w = (uuid_src w (uuid_calls w), w\<lparr>uuid_calls := uuid_calls w + 1\<rparr>)"

definition date_now :: "world \<Rightarrow> timestamp \<times> world" where
  "date_now w = (clock w (clock_reads w), w\<lparr>clock_reads := clock_reads w + 1\<rparr>)"

definition console_log :: "log_entry \<Rightarrow> world \<Rightarrow> world" where
  "console_log e w = w\<lparr>logs := logs w @ [e]\<rparr>"

section \<open>Helper functions of the routes file\<close>

text \<open>
  The three lookups the intake handler awaits (\<^verbatim>\<open>checkExistingNotification\<close>,
  \<^verbatim>\<open>getUserById\<close>, \<^verbatim>\<open>getTemplateByCode\<close>) are parameters of the handler: an
  awaited call either throws or resolves to an object or to null. The bodies the
  routes file gives them are the instance \<open>stubs\<close> below: no earlier notification
  is ever found, every user exists with both preferences on, every template exists.
  The other helpers are kept as the routes file writes them; none of them throws, so
  the \<^verbatim>\<open>catch\<close> blocks of the status handlers are never entered.
\<close>

datatype 'a outcome = Throws | Resolves 'a

record services =
  checkExistingNotification :: "string \<Rightarrow> existing_notification option outcome"
  getUserById :: "string \<Rightarrow> user option outcome"
  getTemplateByCode :: "string \<Rightarrow> template option outcome"

definition stubs :: services where
  "stubs = \<lparr>
     checkExistingNotification = (\<lambda>request_id. Resolves None),
     getUserById = (\<lambda>user_id. Resolves (Some \<lparr>
        usr_user_id = user_id,
        usr_name = ''Test User'',
        usr_email = ''test@example.com'',
        usr_preferences = \<lparr>pref_email = True, pref_push = True\<rparr>\<rparr>)),
     getTemplateByCode = (\<lambda>template_code. Resolves (Some \<lparr>
        tpl_template_code = template_code,
        tpl_subject = ''Test Template'',
        tpl_content = ''Hello {{name}}''\<rparr>))\<rparr>"

definition createNotification :: "notification \<Rightarrow> world \<Rightarrow> world" where
  "createNotification n w = console_log (Creating_notification n) w"

definition queueNotification :: "queue_message \<Rightarrow> world \<Rightarrow> world" where
  "queueNotification m w = console_log (Queueing_notification m) w"

text \<open>
  \<^verbatim>\<open>calculateEstimatedDelivery\<close>: the clock reading plus the delay, in milliseconds.
  The source renders the result with \<^verbatim>\<open>toISOString()\<close>, which is defined on the
  whole range of dates, 8.64e15 milliseconds either side of the epoch; a request
  reaches the handler through its route only with a priority from 1 to 10 or none,
  so the delay is 5 to 50 minutes and the result is a date whenever the clock reading
  is one.
\<close>

definition calculateEstimatedDelivery :: "int \<Rightarrow> world \<Rightarrow> timestamp \<times> world" where
  "calculateEstimatedDelivery priority w =
     (let delayMinutes = max 1 (11 - priority) * 5;
          (now, w1) = date_now w
      in (now + delayMinutes * 60 * 1000, w1))"



section \<open>The route handlers\<close>

text \<open>
  The return statement the intake handler has twice, once for email and once for push:
  a new identifier, status skipped, the time of the reply, no estimate.
\<close>

definition skipped_reply :: "world \<Rightarrow> reply \<times> world" where
  "skipped_reply w =
     (let (nid, w1) = uuidv4 w;
          (queued_at, w2) = date_now w1
      in ((200, Success_data
             \<lparr>rs_notification_id = nid, rs_status = Skipped,
              rs_queued_at = queued_at, rs_estimated_delivery = None\<rparr>
             ''Notification skipped due to user preferences''), w2))"

text \<open>
  The rest of the intake handler once the template is found: generate the identifier,
  create the notification record, queue the notification, compute the estimate, reply.
  \<^verbatim>\<open>priority\<close> is 5 when the request has none.
\<close>

definition accept_notification :: "notification_request \<Rightarrow> world \<Rightarrow> reply \<times> world" where
  "accept_notification req w =
     (let priority = (case rq_priority req of None \<Rightarrow> 5 | Some p \<Rightarrow> p);
          (notification_id, w1) = uuidv4 w;
          w2 = createNotification \<lparr>
                 nt_notification_id = notification_id,
                 nt_request_id = rq_request_id req,
                 nt_user_id = rq_user_id req,
                 nt_notification_type = rq_notification_type req,
                 nt_template_code = rq_template_code req,
                 nt_variables = rq_variables req,
                 nt_priority = priority,
                 nt_metadata = rq_metadata req,
                 nt_status = Pending\<rparr> w1;
          w3 = queueNotification \<lparr>
                 qm_notification_id = notification_id,
                 qm_notification_type = rq_notification_type req,
                 qm_user_id = rq_user_id req,
                 qm_template_code = rq_template_code req,
                 qm_variables = rq_variables req,
                 qm_priority = priority,
                 qm_metadata = rq_metadata req\<rparr> w2;
          (estimatedDelivery, w4) = calculateEstimatedDelivery priority w3;
          (queued_at, w5) = date_now w4
      in ((200, Success_data
             \<lparr>rs_notification_id = notification_id, rs_status = Queued,
              rs_queued_at = queued_at, rs_estimated_delivery = Some estimatedDelivery\<rparr>
             ''Notification queued successfully''), w5))"

text \<open>The \<^verbatim>\<open>catch\<close> block of the intake handler.\<close>

definition create_failed :: "world \<Rightarrow> reply \<times> world" where
  "create_failed w =
     ((500, Failure ''Internal Server Error'' ''Failed to create notification''),
      console_log (Log_error ''Error creating notification:'') w)"

text \<open>\<^verbatim>\<open>POST /api/v1/notifications\<close>.\<close>

definition post_notification :: "services \<Rightarrow> notification_request \<Rightarrow> world \<Rightarrow> reply \<times> world" where
  "post_notification svc req w =
     (case checkExistingNotification svc (rq_request_id req) of
        Throws \<Rightarrow> create_failed w
      | Resolves (Some existing) \<Rightarrow>
          ((200, Success_data
              \<lparr>rs_notification_id = ex_notification_id existing,
               rs_status = ex_status existing,
               rs_queued_at = ex_created_at existing,
               rs_estimated_delivery = None\<rparr>
              ''Notification already processed (idempotent request)''), w)
      | Resolves None \<Rightarrow>
          (case getUserById svc (rq_user_id req) of
             Throws \<Rightarrow> create_failed w
           | Resolves None \<Rightarrow>
               ((404, Failure ''User Not Found''
                   (''User with ID '' @ rq_user_id req @ '' not found'')), w)
           | Resolves (Some usr) \<Rightarrow>
               if rq_notification_type req = Email \<and> \<not> pref_email (usr_preferences usr)
               then skipped_reply w
               else if rq_notification_type req = Push \<and> \<not> pref_push (usr_preferences usr)
               then skipped_reply w
               else
                 (case getTemplateByCode svc (rq_template_code req) of
                    Throws \<Rightarrow> create_failed w
                  | Resolves None \<Rightarrow>
                      ((400, Failure ''Template Not Found''
                          (''Template with code '' @ rq_template_code req @ '' not found'')), w)
                  | Resolves (Some tpl) \<Rightarrow> accept_notification req w)))"



section \<open>The routes: schema validation before the handler\<close>

text \<open>
  Each route is registered with the JSON schemas of its params and body; the framework
  checks them before it runs the handler and answers 400 by itself when one fails. The
  records above hold the required properties, so what is left to check is the formats,
  lengths, ranges and enumerations. The \<^verbatim>\<open>uuid\<close> format is the validator's:
  8-4-4-4-12 hexadecimal digits of either case, with an optional \<^verbatim>\<open>urn:uuid:\<close> in
  front. The routes below are for a request that has passed
  \<^verbatim>\<open>fastify.authenticate\<close> where the route asks for it.
\<close>

definition is_hex_digit :: "char \<Rightarrow> bool" where
  "is_hex_digit c = (c \<in> set ''0123456789abcdefABCDEF'')"

definition is_uuid_digits :: "string \<Rightarrow> bool" where
  "is_uuid_digits s =
     (length s = 36
      \<and> list_all is_hex_digit (take 8 s)
      \<and> take 1 (drop 8 s) = ''-''
      \<and> list_all is_hex_digit (take 4 (drop 9 s))
      \<and> take 1 (drop 13 s) = ''-''
      \<and> list_all is_hex_digit (take 4 (drop 14 s))
      \<and> take 1 (drop 18 s) = ''-''
      \<and> list_all is_hex_digit (take 4 (drop 19 s))
      \<and> take 1 (drop 23 s) = ''-''
      \<and> list_all is_hex_digit (drop 24 s))"

definition is_uuid :: "string \<Rightarrow> bool" where
  "is_uuid s =
     (is_uuid_digits s \<or> (take 9 s = ''urn:uuid:'' \<and> is_uuid_digits (drop 9 s)))"

text \<open>
  \<^verbatim>\<open>notificationRequestSchema\<close>: \<^verbatim>\<open>user_id\<close> a uuid, \<^verbatim>\<open>template_code\<close> and
  \<^verbatim>\<open>request_id\<close> of 1 to 100 characters, \<^verbatim>\<open>priority\<close>, when given, an integer
  from 1 to 10.
\<close>

definition valid_request :: "notification_request \<Rightarrow> bool" where
  "valid_request req =
     (is_uuid (rq_user_id req)
      \<and> 1 \<le> length (rq_template_code req) \<and> length (rq_template_code req) \<le> 100
      \<and> 1 \<le> length (rq_request_id req) \<and> length (rq_request_id req) \<le> 100
      \<and> (case rq_priority req of None \<Rightarrow> True | Some p \<Rightarrow> 1 \<le> p \<and> p \<le> 10))"


text \<open>\<^verbatim>\<open>POST /api/v1/notifications\<close> with \<^verbatim>\<open>body: notificationRequestSchema\<close>.\<close>

definition route_post_notification ::
  "services \<Rightarrow> notification_request \<Rightarrow> world \<Rightarrow> reply \<times> world" where
  "route_post_notification svc req w =
     (if valid_request req then post_notification svc req w else ((400, Bad_request), w))"



section \<open>Reading the effect trace\<close>

text \<open>The notifications handed to \<^verbatim>\<open>createNotification\<close>, in order.\<close>

fun created_of :: "log_entry list \<Rightarrow> notification list" where
  "created_of [] = []"
| "created_of (Creating_notification n # es) = n # created_of es"
| "created_of (e # es) = created_of es"

text \<open>The messages handed to \<^verbatim>\<open>queueNotification\<close>, in order.\<close>

fun enqueued_of :: "log_entry list \<Rightarrow> queue_message list" where
  "enqueued_of [] = []"
| "enqueued_of (Queueing_notification m # es) = m # enqueued_of es"
| "enqueued_of (e # es) = enqueued_of es"

definition reply_data :: "reply \<Rightarrow> response_data option" where
  "reply_data r = (case snd r of Success_data d msg \<Rightarrow> Some d | _ \<Rightarrow> None)"


text \<open>
  The request of the specification's concrete scenario, with a user identifier in the
  uuid format the route asks for; lookups for a user who has opted out of email, for
  an unknown user and for an unknown template; a world at start-up whose identifier
  source yields two distinct identifiers; a status update asking for delivered, and
  one asking for queued, which the route's schema does not admit.
\<close>

definition welcome_request :: notification_request where
  "welcome_request = \<lparr>
     rq_notification_type = Email,
     rq_user_id = ''7c9e6679-7425-40de-944b-e07fc1f90ae7'',
     rq_template_code = ''welcome'',
     rq_variables = [],
     rq_request_id = ''r-1'',
     rq_priority = Some 5,
     rq_metadata = None\<rparr>"

definition boot_world :: world where
  "boot_world = \<lparr>
     logs = [],
     uuid_src = (\<lambda>n. if n = 0 then ''9b2e4f60-0000-4000-8000-000000000001''
                     else ''9b2e4f60-0000-4000-8000-000000000002''),
     uuid_calls = 0,
     clock = (\<lambda>n. 1700000000000 + int n),
     clock_reads = 0\<rparr>"

definition opted_out_services :: services where
  "opted_out_services = stubs\<lparr>
     getUserById := (\<lambda>user_id. Resolves (Some \<lparr>
        usr_user_id = user_id,
        usr_name = ''Test User'',
        usr_email = ''test@example.com'',
        usr_preferences = \<lparr>pref_email = False, pref_push = True\<rparr>\<rparr>))\<rparr>"

definition unknown_user_services :: services where
  "unknown_user_services = stubs\<lparr>getUserById := (\<lambda>user_id. Resolves None)\<rparr>"

definition unknown_template_services :: services where
  "unknown_template_services = stubs\<lparr>getTemplateByCode := (\<lambda>template_code. Resolves None)\<rparr>"



section \<open>Status Manager\<close>

text \<open>
  Modelled from the spec: the transition table of the Status Manager (section 4.3),
  which the repository does not implement. \<open>transition_table a b\<close> holds when the
  table has a row from \<open>a\<close> to \<open>b\<close>.
\<close>

fun transition_table :: "status \<Rightarrow> status \<Rightarrow> bool" where
  "transition_table Pending Queued = True"
| "transition_table Queued Processing = True"
| "transition_table Processing Sent = True"
| "transition_table Sent Delivered = True"
| "transition_table Processing Failed = True"
| "transition_table Failed Queued = True"
| "transition_table Failed Dead_lettered = True"
| "transition_table Pending Skipped = True"
| "transition_table _ _ = False"

datatype core_error = InvalidTransition

text \<open>
  Modelled from the spec: the Status Manager's transition (section 4.3), absent from the
  repository: an illegal transition is rejected with \<open>InvalidTransition\<close>.
\<close>

definition transition :: "status \<Rightarrow> status \<Rightarrow> core_error + status" where
  "transition from to = (if transition_table from to then Inr to else Inl InvalidTransition)"

section \<open>Retry Manager\<close>

text \<open>
  Modelled from the spec: the configuration of the Retry Manager (section 4.4), its
  decision, and the three logical queues of the Queue Router (section 4.2); the
  repository implements none of them.
\<close>

record retry_config =
  base_delay :: real
  max_delay :: real
  max_retries :: nat

datatype retry_action = Retry real | Dead_letter

datatype queue_name = Email_queue | Push_queue | Failed_queue

text \<open>
  Modelled from the spec: the part of a Notification (section 3) the delivery core works
  on, with the messages put on queues for it and their delays.
\<close>

record tracked =
  tn_type :: notification_type
  tn_status :: status
  tn_retry_count :: nat
  tn_enqueued :: "(queue_name \<times> real) list"

text \<open>
  Modelled from the spec: the backoff policy of the Retry Manager (section 4.4), absent
  from the repository: \<open>base * 2^retry_count\<close>, capped at the configured maximum,
  with a jitter factor drawn by the caller (within 20 percent either way).
\<close>

definition backoff_delay :: "retry_config \<Rightarrow> nat \<Rightarrow> real \<Rightarrow> real" where
  "backoff_delay cfg retry_count jitter =
     min (base_delay cfg * 2 ^ retry_count) (max_delay cfg) * (1 + jitter)"

text \<open>
  Modelled from the spec: \<open>onFailure\<close> of the Retry Manager (section 4.4), absent from
  the repository: dead-letters when \<open>retry_count >= max_retries\<close>, otherwise retries
  after the backoff delay.
\<close>

definition onFailure :: "retry_config \<Rightarrow> real \<Rightarrow> tracked \<Rightarrow> retry_action" where
  "onFailure cfg jitter n =
     (if max_retries cfg \<le> tn_retry_count n then Dead_letter
      else Retry (backoff_delay cfg (tn_retry_count n) jitter))"

text \<open>
  Modelled from the spec: \<open>route\<close> of the Queue Router (section 4.2), absent from the
  repository, for a notification that is not exhausted.
\<close>

definition route :: "notification_type \<Rightarrow> queue_name" where
  "route ty = (case ty of Email \<Rightarrow> Email_queue | Push \<Rightarrow> Push_queue)"

text \<open>
  Modelled from the spec: the events of the transition table (section 4.3); a channel
  failure carries the jitter drawn for it.
\<close>

datatype event =
  Enqueued | Picked_up | Channel_accepted | Provider_confirmed | Channel_failed real | Opted_out

text \<open>
  Modelled from the spec: the control flow of section 2 over the transition table
  (section 4.3) and the Retry Manager (section 4.4), absent from the repository. A retry
  increments \<open>retry_count\<close> before the re-enqueue; an exhausted notification goes to
  the failed queue.
\<close>

definition apply_event :: "retry_config \<Rightarrow> event \<Rightarrow> tracked \<Rightarrow> core_error + tracked" where
  "apply_event cfg ev n =
     (case ev of
        Enqueued \<Rightarrow>
          (case transition (tn_status n) Queued of
             Inl e \<Rightarrow> Inl e
           | Inr s \<Rightarrow> Inr (n\<lparr>tn_status := s,
                             tn_enqueued := tn_enqueued n @ [(route (tn_type n), 0)]\<rparr>))
      | Picked_up \<Rightarrow>
          (case transition (tn_status n) Processing of
             Inl e \<Rightarrow> Inl e | Inr s \<Rightarrow> Inr (n\<lparr>tn_status := s\<rparr>))
      | Channel_accepted \<Rightarrow>
          (case transition (tn_status n) Sent of
             Inl e \<Rightarrow> Inl e | Inr s \<Rightarrow> Inr (n\<lparr>tn_status := s\<rparr>))
      | Provider_confirmed \<Rightarrow>
          (case transition (tn_status n) Delivered of
             Inl e \<Rightarrow> Inl e | Inr s \<Rightarrow> Inr (n\<lparr>tn_status := s\<rparr>))
      | Opted_out \<Rightarrow>
          (case transition (tn_status n) Skipped of
             Inl e \<Rightarrow> Inl e | Inr s \<Rightarrow> Inr (n\<lparr>tn_status := s\<rparr>))
      | Channel_failed jitter \<Rightarrow>
          (case transition (tn_status n) Failed of
             Inl e \<Rightarrow> Inl e
           | Inr s \<Rightarrow>
               (case onFailure cfg jitter n of
                  Retry delay \<Rightarrow>
                    (case transition s Queued of
                       Inl e \<Rightarrow> Inl e
                     | Inr s' \<Rightarrow>
                         Inr (n\<lparr>tn_status := s',
                                tn_retry_count := tn_retry_count n + 1,
                                tn_enqueued := tn_enqueued n @ [(route (tn_type n), delay)]\<rparr>))
                | Dead_letter \<Rightarrow>
                    (case transition s Dead_lettered of
                       Inl e \<Rightarrow> Inl e
                     | Inr s' \<Rightarrow>
                         Inr (n\<lparr>tn_status := s',
                                tn_enqueued := tn_enqueued n @ [(Failed_queue, 0)]\<rparr>)))))"

text \<open>
  Modelled from the spec: a sequence of events reaching the Status Manager (section 8,
  state machine legality); a rejected event leaves the notification as it was.
\<close>

fun run_events :: "retry_config \<Rightarrow> event list \<Rightarrow> tracked \<Rightarrow> tracked" where
  "run_events cfg [] n = n"
| "run_events cfg (ev # evs) n =
     run_events cfg evs (case apply_event cfg ev n of Inl e \<Rightarrow> n | Inr n' \<Rightarrow> n')"

text \<open>
  Modelled from the spec: the Notification as intake inserts it into the Ledger
  (section 2): status pending, no retry yet.
\<close>

definition fresh :: "notification_type \<Rightarrow> tracked" where
  "fresh ty = \<lparr>tn_type = ty, tn_status = Pending, tn_retry_count = 0, tn_enqueued = []\<rparr>"

section \<open>Circuit Breaker\<close>

text \<open>
  Modelled from the spec: the Circuit Breaker State of section 3 and the configured
  threshold, window and cooldown of section 4.5; the repository has no breaker.
\<close>

datatype breaker_mode = Closed | Open | Half_open

record breaker_config =
  threshold :: nat
  window :: int
  cooldown :: int

text \<open>
  Modelled from the spec: the breaker state of one channel (section 3): the mode, the times of the consecutive failures
  counted so far, the time of the last transition, and the probes admitted since the
  breaker became half-open.
\<close>

record breaker =
  mode :: breaker_mode
  failures :: "timestamp list"
  last_transition :: timestamp
  probes :: nat

datatype admission = Permit | Reject

text \<open>
  Modelled from the spec: the admission decision of the Circuit Breaker (section 4.5),
  absent from the repository. A closed breaker lets the request pass; an open one
  rejects it until the cooldown has elapsed, then becomes half-open and admits the
  request as the probe; a half-open one admits no request beyond the one probe.
\<close>

definition acquire :: "breaker_config \<Rightarrow> timestamp \<Rightarrow> breaker \<Rightarrow> admission \<times> breaker" where
  "acquire cfg now b =
     (case mode b of
        Closed \<Rightarrow> (Permit, b)
      | Open \<Rightarrow>
          if cooldown cfg \<le> now - last_transition b
          then (Permit, b\<lparr>mode := Half_open, last_transition := now, probes := 1\<rparr>)
          else (Reject, b)
      | Half_open \<Rightarrow>
          if probes b < 1 then (Permit, b\<lparr>probes := probes b + 1\<rparr>) else (Reject, b))"

text \<open>
  Modelled from the spec: the transition rules of the Circuit Breaker (section 4.5),
  absent from the repository, applied when an admitted request reports its outcome.
  Closed: a success clears the failure count, a failure is counted with the earlier
  consecutive failures still inside the window, and the breaker opens when the count
  reaches the threshold. Half-open: a success closes the breaker, a failure opens it.
\<close>

definition report :: "breaker_config \<Rightarrow> timestamp \<Rightarrow> bool \<Rightarrow> breaker \<Rightarrow> breaker" where
  "report cfg now ok b =
     (case mode b of
        Closed \<Rightarrow>
          if ok then b\<lparr>failures := []\<rparr>
          else
            (let fs = filter (\<lambda>t. now - t < window cfg) (failures b) @ [now]
             in if threshold cfg \<le> length fs
                then b\<lparr>mode := Open, failures := [], last_transition := now, probes := 0\<rparr>
                else b\<lparr>failures := fs\<rparr>)
      | Half_open \<Rightarrow>
          if ok
          then b\<lparr>mode := Closed, failures := [], last_transition := now, probes := 0\<rparr>
          else b\<lparr>mode := Open, failures := [], last_transition := now, probes := 0\<rparr>
      | Open \<Rightarrow> b)"

text \<open>
  Modelled from the spec: the channel's \<open>send\<close> capability (section 6): the outcomes its calls will have, and the number
  of calls made so far.
\<close>

record channel =
  outcomes :: "nat \<Rightarrow> bool"
  sends :: nat

definition send :: "channel \<Rightarrow> bool \<times> channel" where
  "send ch = (outcomes ch (sends ch), ch\<lparr>sends := sends ch + 1\<rparr>)"

datatype delivery_result = Channel_ok | DeliveryError | CircuitOpen

text \<open>
  Modelled from the spec: the breaker wrapping exactly the external \<open>send\<close> call
  (section 4.5), absent from the repository: a rejected request fails with
  \<open>CircuitOpen\<close> and makes no call to the channel.
\<close>

definition guarded_send ::
  "breaker_config \<Rightarrow> timestamp \<Rightarrow> breaker \<times> channel \<Rightarrow> delivery_result \<times> breaker \<times> channel" where
  "guarded_send cfg now bc =
     (case acquire cfg now (fst bc) of
        (Reject, b1) \<Rightarrow> (CircuitOpen, b1, snd bc)
      | (Permit, b1) \<Rightarrow>
          (let (ok, ch1) = send (snd bc)
           in (if ok then Channel_ok else DeliveryError, report cfg now ok b1, ch1)))"

text \<open>
  Modelled from the spec: calls made through the breaker one after the other, at the
  given times (section 8, breaker correctness).
\<close>

fun run_calls :: "breaker_config \<Rightarrow> timestamp list \<Rightarrow> breaker \<times> channel \<Rightarrow> breaker \<times> channel" where
  "run_calls cfg [] bc = bc"
| "run_calls cfg (now # ts) bc = run_calls cfg ts (snd (guarded_send cfg now bc))"

text \<open>
  A breaker configuration, a closed and a tripped breaker, and a channel whose first
  three calls fail and whose later calls succeed.
\<close>

definition smtp_breaker_config :: breaker_config where
  "smtp_breaker_config = \<lparr>threshold = 3, window = 10000, cooldown = 30000\<rparr>"

definition closed_breaker :: breaker where
  "closed_breaker = \<lparr>mode = Closed, failures = [], last_transition = 0, probes = 0\<rparr>"

definition tripped_breaker :: breaker where
  "tripped_breaker = \<lparr>mode = Open, failures = [], last_transition = 3000, probes = 0\<rparr>"

definition failing_channel :: channel where
  "failing_channel = \<lparr>outcomes = (\<lambda>i. 3 \<le> i), sends = 0\<rparr>"

section \<open>What the handlers compute\<close>

lemma skipped_reply_value:
  "skipped_reply w =
     ((200, Success_data
         \<lparr>rs_notification_id = uuid_src w (uuid_calls w), rs_status = Skipped,
          rs_queued_at = clock w (clock_reads w), rs_estimated_delivery = None\<rparr>
         ''Notification skipped due to user preferences''),
      w\<lparr>uuid_calls := uuid_calls w + 1, clock_reads := clock_reads w + 1\<rparr>)"
  by (simp add: skipped_reply_def uuidv4_def date_now_def)

lemma accept_notification_value:
  "accept_notification req w =
     ((200, Success_data
         \<lparr>rs_notification_id = uuid_src w (uuid_calls w), rs_status = Queued,
          rs_queued_at = clock w (clock_reads w + 1),
          rs_estimated_delivery =
            Some (clock w (clock_reads w)
                  + max 1 (11 - (case rq_priority req of None \<Rightarrow> 5 | Some p \<Rightarrow> p)) * 5 * 60 * 1000)\<rparr>
         ''Notification queued successfully''),
      w\<lparr>logs := logs w @
          [Creating_notification \<lparr>
             nt_notification_id = uuid_src w (uuid_calls w),
             nt_request_id = rq_request_id req,
             nt_user_id = rq_user_id req,
             nt_notification_type = rq_notification_type req,
             nt_template_code = rq_template_code req,
             nt_variables = rq_variables req,
             nt_priority = (case rq_priority req of None \<Rightarrow> 5 | Some p \<Rightarrow> p),
             nt_metadata = rq_metadata req,
             nt_status = Pending\<rparr>,
           Queueing_notification \<lparr>
             qm_notification_id = uuid_src w (uuid_calls w),
             qm_notification_type = rq_notification_type req,
             qm_user_id = rq_user_id req,
             qm_template_code = rq_template_code req,
             qm_variables = rq_variables req,
             qm_priority = (case rq_priority req of None \<Rightarrow> 5 | Some p \<Rightarrow> p),
             qm_metadata = rq_metadata req\<rparr>],
        uuid_calls := uuid_calls w + 1,
        clock_reads := clock_reads w + 2\<rparr>)"
  by (simp add: accept_notification_def uuidv4_def date_now_def createNotification_def
      queueNotification_def console_log_def calculateEstimatedDelivery_def Let_def)

lemma post_notification_stubs: "post_notification stubs req w = accept_notification req w"
  by (simp add: post_notification_def stubs_def)



lemma calculateEstimatedDelivery_value:
  "calculateEstimatedDelivery p w =
     (clock w (clock_reads w) + max 1 (11 - p) * 5 * 60 * 1000,
      w\<lparr>clock_reads := clock_reads w + 1\<rparr>)"
  by (simp add: calculateEstimatedDelivery_def date_now_def)



lemma post_notification_opted_out:
  assumes "checkExistingNotification svc (rq_request_id req) = Resolves None"
    and "getUserById svc (rq_user_id req) = Resolves (Some usr)"
    and "(rq_notification_type req = Email \<and> \<not> pref_email (usr_preferences usr))
         \<or> (rq_notification_type req = Push \<and> \<not> pref_push (usr_preferences usr))"
  shows "post_notification svc req w = skipped_reply w"
  using assms by (auto simp add: post_notification_def)

lemma post_notification_accepted:
  assumes "checkExistingNotification svc (rq_request_id req) = Resolves None"
    and "getUserById svc (rq_user_id req) = Resolves (Some usr)"
    and "rq_notification_type req = Email \<longrightarrow> pref_email (usr_preferences usr)"
    and "rq_notification_type req = Push \<longrightarrow> pref_push (usr_preferences usr)"
    and "getTemplateByCode svc (rq_template_code req) = Resolves (Some tpl)"
  shows "post_notification svc req w = accept_notification req w"
  using assms by (auto simp add: post_notification_def)

lemma welcome_request_valid: "valid_request welcome_request"
  by (simp add: valid_request_def welcome_request_def is_uuid_def is_uuid_digits_def
      is_hex_digit_def)




lemma route_post_notification_welcome:
  "route_post_notification svc welcome_request w = post_notification svc welcome_request w"
  by (simp add: route_post_notification_def welcome_request_valid)

section \<open>Claims about the gateway\<close>

text \<open>
  Claim C1 (idempotent intake): submitting the same \<open>request_id\<close> again returns the
  notification already created for it, creating and enqueueing nothing new. The
  intake handler asks \<^verbatim>\<open>checkExistingNotification\<close> first, but the body the routes
  file gives that function always resolves to null. Evaluated on the request of the
  concrete scenario, which the route's schema admits, submitted twice in a row: the
  two replies carry two different notification identifiers, two notifications are
  created for request \<open>r-1\<close>, and two messages are enqueued.
\<close>

theorem duplicate_request_creates_twice:
  "map_option rs_notification_id
     (reply_data (fst (route_post_notification stubs welcome_request boot_world)))
     = Some ''9b2e4f60-0000-4000-8000-000000000001''
   \<and> map_option rs_notification_id
     (reply_data (fst (route_post_notification stubs welcome_request
        (snd (route_post_notification stubs welcome_request boot_world)))))
     = Some ''9b2e4f60-0000-4000-8000-000000000002''
   \<and> map nt_request_id
     (created_of (logs (snd (route_post_notification stubs welcome_request
        (snd (route_post_notification stubs welcome_request boot_world))))))
     = [''r-1'', ''r-1'']
   \<and> map qm_notification_id
     (enqueued_of (logs (snd (route_post_notification stubs welcome_request
        (snd (route_post_notification stubs welcome_request boot_world))))))
     = [''9b2e4f60-0000-4000-8000-000000000001'', ''9b2e4f60-0000-4000-8000-000000000002'']"
  unfolding route_post_notification_welcome
  by (simp add: post_notification_stubs accept_notification_value reply_data_def
      welcome_request_def boot_world_def)




text \<open>
  Claim C5 (preference opt-out): an intake request for an email notification whose
  user has \<open>preferences.email = false\<close>, or for a push notification whose user has
  \<open>preferences.push = false\<close>, is answered with status skipped and no estimated
  delivery; nothing is logged, so nothing is created and nothing is enqueued.
\<close>

theorem opted_out_intake_is_skipped:
  assumes "checkExistingNotification svc (rq_request_id req) = Resolves None"
    and "getUserById svc (rq_user_id req) = Resolves (Some usr)"
    and "(rq_notification_type req = Email \<and> \<not> pref_email (usr_preferences usr))
         \<or> (rq_notification_type req = Push \<and> \<not> pref_push (usr_preferences usr))"
  shows "fst (fst (post_notification svc req w)) = 200
    \<and> map_option rs_status (reply_data (fst (post_notification svc req w))) = Some Skipped
    \<and> map_option rs_estimated_delivery (reply_data (fst (post_notification svc req w)))
        = Some None
    \<and> logs (snd (post_notification svc req w)) = logs w
    \<and> enqueued_of (logs (snd (post_notification svc req w))) = enqueued_of (logs w)"
  by (simp add: post_notification_opted_out [OF assms] skipped_reply_value reply_data_def)

theorem opted_out_intake_is_skipped_witness:
  "map_option rs_status
     (reply_data (fst (post_notification opted_out_services welcome_request boot_world)))
     = Some Skipped
   \<and> enqueued_of (logs (snd (post_notification opted_out_services welcome_request boot_world)))
     = []"
  using opted_out_intake_is_skipped [of opted_out_services welcome_request
      "\<lparr>usr_user_id = ''7c9e6679-7425-40de-944b-e07fc1f90ae7'', usr_name = ''Test User'', usr_email = ''test@example.com'',
        usr_preferences = \<lparr>pref_email = False, pref_push = True\<rparr>\<rparr>" boot_world]
  by (simp add: opted_out_services_def stubs_def welcome_request_def boot_world_def)

text \<open>
  Claim C6 (failed lookups): when the user lookup finds no user, intake answers with
  the error User Not Found under code 404; when the template lookup finds no template
  (the handler reaches it for a known user who has not opted out), intake answers with
  the error Template Not Found, under code 400. In both cases the handler returns at
  once and the world is unchanged: no notification created, nothing enqueued.
\<close>

theorem failed_lookup_rejects_without_effect:
  assumes "checkExistingNotification svc (rq_request_id req) = Resolves None"
  shows "(getUserById svc (rq_user_id req) = Resolves None \<longrightarrow>
            post_notification svc req w =
              ((404, Failure ''User Not Found''
                  (''User with ID '' @ rq_user_id req @ '' not found'')), w))
    \<and> (getUserById svc (rq_user_id req) = Resolves (Some usr)
         \<and> (rq_notification_type req = Email \<longrightarrow> pref_email (usr_preferences usr))
         \<and> (rq_notification_type req = Push \<longrightarrow> pref_push (usr_preferences usr))
         \<and> getTemplateByCode svc (rq_template_code req) = Resolves None \<longrightarrow>
            post_notification svc req w =
              ((400, Failure ''Template Not Found''
                  (''Template with code '' @ rq_template_code req @ '' not found'')), w))"
  using assms by (auto simp add: post_notification_def)

theorem failed_lookup_rejects_without_effect_witness:
  "post_notification unknown_user_services welcome_request boot_world =
     ((404, Failure ''User Not Found'' ''User with ID 7c9e6679-7425-40de-944b-e07fc1f90ae7 not found''), boot_world)
   \<and> post_notification unknown_template_services welcome_request boot_world =
     ((400, Failure ''Template Not Found'' ''Template with code welcome not found''), boot_world)"
  using failed_lookup_rejects_without_effect [of unknown_user_services welcome_request
      boot_world
      "\<lparr>usr_user_id = ''7c9e6679-7425-40de-944b-e07fc1f90ae7'', usr_name = ''Test User'', usr_email = ''test@example.com'',
        usr_preferences = \<lparr>pref_email = True, pref_push = True\<rparr>\<rparr>"]
    failed_lookup_rejects_without_effect [of unknown_template_services welcome_request
      boot_world "\<lparr>usr_user_id = ''7c9e6679-7425-40de-944b-e07fc1f90ae7'', usr_name = ''Test User'', usr_email = ''test@example.com'',
        usr_preferences = \<lparr>pref_email = True, pref_push = True\<rparr>\<rparr>"]
  by (simp add: unknown_user_services_def unknown_template_services_def stubs_def
      welcome_request_def)

text \<open>
  Claim C7 (the status returned equals the stored status): at a concrete request the
  route's schema admits and the handler accepts, the reply says queued, while the
  notification handed to \<^verbatim>\<open>createNotification\<close> has status pending.
\<close>

theorem intake_reply_status_differs_from_record:
  "valid_request welcome_request
   \<and> map_option rs_status
     (reply_data (fst (route_post_notification stubs welcome_request boot_world))) = Some Queued
   \<and> map nt_status
     (created_of (logs (snd (route_post_notification stubs welcome_request boot_world))))
     = [Pending]
   \<and> Queued \<noteq> Pending"
  unfolding route_post_notification_welcome
  by (simp add: welcome_request_valid post_notification_stubs accept_notification_value
      reply_data_def boot_world_def)

text \<open>
  Claim C7, as the code has it: for every intake request the route's schema admits
  and the handler accepts, the notification is handed to \<^verbatim>\<open>createNotification\<close>
  with status pending before the message with the same notification identifier is
  handed to \<^verbatim>\<open>queueNotification\<close>, and the reply carries that identifier and
  reports status queued.
\<close>

theorem accepted_intake_creates_pending_then_enqueues:
  assumes "valid_request req"
    and "checkExistingNotification svc (rq_request_id req) = Resolves None"
    and "getUserById svc (rq_user_id req) = Resolves (Some usr)"
    and "rq_notification_type req = Email \<longrightarrow> pref_email (usr_preferences usr)"
    and "rq_notification_type req = Push \<longrightarrow> pref_push (usr_preferences usr)"
    and "getTemplateByCode svc (rq_template_code req) = Resolves (Some tpl)"
  shows "logs (snd (route_post_notification svc req w)) = logs w @
          [Creating_notification \<lparr>
             nt_notification_id = uuid_src w (uuid_calls w),
             nt_request_id = rq_request_id req,
             nt_user_id = rq_user_id req,
             nt_notification_type = rq_notification_type req,
             nt_template_code = rq_template_code req,
             nt_variables = rq_variables req,
             nt_priority = (case rq_priority req of None \<Rightarrow> 5 | Some p \<Rightarrow> p),
             nt_metadata = rq_metadata req,
             nt_status = Pending\<rparr>,
           Queueing_notification \<lparr>
             qm_notification_id = uuid_src w (uuid_calls w),
             qm_notification_type = rq_notification_type req,
             qm_user_id = rq_user_id req,
             qm_template_code = rq_template_code req,
             qm_variables = rq_variables req,
             qm_priority = (case rq_priority req of None \<Rightarrow> 5 | Some p \<Rightarrow> p),
             qm_metadata = rq_metadata req\<rparr>]
    \<and> fst (fst (route_post_notification svc req w)) = 200
    \<and> map_option rs_notification_id (reply_data (fst (route_post_notification svc req w)))
        = Some (uuid_src w (uuid_calls w))
    \<and> map_option rs_status (reply_data (fst (route_post_notification svc req w))) = Some Queued"
  by (simp add: route_post_notification_def assms(1) post_notification_accepted [OF assms(2-6)]
      accept_notification_value reply_data_def)

theorem accepted_intake_creates_pending_then_enqueues_witness:
  "map nt_status
     (created_of (logs (snd (route_post_notification stubs welcome_request boot_world))))
     = [Pending]
   \<and> map qm_notification_id
     (enqueued_of (logs (snd (route_post_notification stubs welcome_request boot_world))))
     = [''9b2e4f60-0000-4000-8000-000000000001'']
   \<and> map_option rs_status
     (reply_data (fst (route_post_notification stubs welcome_request boot_world)))
     = Some Queued"
  using accepted_intake_creates_pending_then_enqueues [OF welcome_request_valid, of stubs
      "\<lparr>usr_user_id = ''7c9e6679-7425-40de-944b-e07fc1f90ae7'', usr_name = ''Test User'', usr_email = ''test@example.com'',
        usr_preferences = \<lparr>pref_email = True, pref_push = True\<rparr>\<rparr>"
      "\<lparr>tpl_template_code = ''welcome'', tpl_subject = ''Test Template'',
        tpl_content = ''Hello {{name}}''\<rparr>" boot_world]
  unfolding route_post_notification_welcome
  by (simp add: post_notification_stubs accept_notification_value reply_data_def
      stubs_def welcome_request_def boot_world_def)




text \<open>
  Claim C10 (estimated delivery): for every priority \<open>p\<close> from 1 to 10 the estimate is
  the clock reading plus \<open>max(1, 11 - p) * 5\<close> minutes, lies between 5 and 50 minutes
  after that reading, is strictly earlier for every strictly higher priority up to
  10, and is the estimate the intake reply carries.
\<close>

theorem estimated_delivery_by_priority:
  assumes "1 \<le> p" and "p \<le> 10"
  shows "fst (calculateEstimatedDelivery p w)
           = clock w (clock_reads w) + max 1 (11 - p) * 5 * 60 * 1000
    \<and> clock w (clock_reads w) + 5 * 60 * 1000 \<le> fst (calculateEstimatedDelivery p w)
    \<and> fst (calculateEstimatedDelivery p w) \<le> clock w (clock_reads w) + 50 * 60 * 1000
    \<and> (\<forall>q. p < q \<and> q \<le> 10 \<longrightarrow>
          fst (calculateEstimatedDelivery q w) < fst (calculateEstimatedDelivery p w))
    \<and> map_option rs_estimated_delivery
         (reply_data (fst (post_notification stubs (req\<lparr>rq_priority := Some p\<rparr>) w)))
        = Some (Some (fst (calculateEstimatedDelivery p w)))"
  using assms
  by (auto simp add: calculateEstimatedDelivery_value post_notification_stubs
      accept_notification_value reply_data_def)

theorem estimated_delivery_by_priority_witness:
  "fst (calculateEstimatedDelivery 5 boot_world) = 1700000000000 + 30 * 60 * 1000
   \<and> fst (calculateEstimatedDelivery 10 boot_world) < fst (calculateEstimatedDelivery 5 boot_world)
   \<and> map_option rs_estimated_delivery
        (reply_data (fst (post_notification stubs welcome_request boot_world)))
       = Some (Some 1700001800000)"
proof -
  have r: "welcome_request\<lparr>rq_priority := Some 5\<rparr> = welcome_request"
    by (simp add: welcome_request_def)
  have p: "(1::int) \<le> 5" "(5::int) \<le> 10" by simp_all
  note t = estimated_delivery_by_priority [OF p, of boot_world welcome_request]
  from t have a: "fst (calculateEstimatedDelivery 5 boot_world)
      = clock boot_world (clock_reads boot_world) + max 1 (11 - 5) * 5 * 60 * 1000"
    by (rule conjunct1)
  from t have "\<forall>q. 5 < q \<and> q \<le> 10 \<longrightarrow>
      fst (calculateEstimatedDelivery q boot_world) < fst (calculateEstimatedDelivery 5 boot_world)"
    by blast
  then have b: "fst (calculateEstimatedDelivery 10 boot_world)
      < fst (calculateEstimatedDelivery 5 boot_world)"
    by simp
  from t [unfolded r] have c: "map_option rs_estimated_delivery
        (reply_data (fst (post_notification stubs welcome_request boot_world)))
       = Some (Some (fst (calculateEstimatedDelivery 5 boot_world)))"
    by blast
  have d: "clock boot_world (clock_reads boot_world) = 1700000000000"
    by (simp add: boot_world_def)
  from a b c d show ?thesis by simp
qed

section \<open>Claims about the Retry Manager\<close>

lemma apply_event_retry_bound:
  assumes "apply_event cfg ev n = Inr n'" and "tn_retry_count n \<le> max_retries cfg"
  shows "tn_retry_count n' \<le> max_retries cfg"
  using assms
  by (cases ev)
     (auto simp add: apply_event_def transition_def onFailure_def
           split: if_splits sum.splits retry_action.splits)

lemma run_events_retry_bound:
  "tn_retry_count n \<le> max_retries cfg \<Longrightarrow>
   tn_retry_count (run_events cfg evs n) \<le> max_retries cfg"
proof (induction evs arbitrary: n)
  case Nil
  then show ?case by simp
next
  case (Cons ev evs)
  show ?case
  proof (cases "apply_event cfg ev n")
    case (Inl e)
    with Cons show ?thesis by simp
  next
    case (Inr n')
    from Inr Cons.prems have "tn_retry_count n' \<le> max_retries cfg"
      by (rule apply_event_retry_bound)
    with Cons.IH Inr show ?thesis by simp
  qed
qed

lemma apply_event_dead_lettered:
  "tn_status n = Dead_lettered \<Longrightarrow> apply_event cfg ev n = Inl InvalidTransition"
  by (cases ev) (simp_all add: apply_event_def transition_def)

lemma run_events_dead_lettered:
  "tn_status n = Dead_lettered \<Longrightarrow> run_events cfg evs n = n"
  by (induction evs) (simp_all add: apply_event_dead_lettered)

lemma run_events_append:
  "run_events cfg (evs @ later) n = run_events cfg later (run_events cfg evs n)"
  by (induction evs arbitrary: n) simp_all

lemma apply_event_exhausted:
  assumes "tn_status n = Processing" and "max_retries cfg \<le> tn_retry_count n"
  shows "apply_event cfg (Channel_failed jitter) n =
           Inr (n\<lparr>tn_status := Dead_lettered,
                  tn_enqueued := tn_enqueued n @ [(Failed_queue, 0)]\<rparr>)"
  using assms by (simp add: apply_event_def transition_def onFailure_def)

text \<open>
  Claim C3 (retry bound): whatever events arrive for a notification, its
  \<open>retry_count\<close> never exceeds the configured \<open>max_retries\<close>; a failure reported
  when the count has reached the limit makes the status dead-lettered, leaves the count
  at the limit and puts the message on the failed queue; and once the status is
  dead-lettered no later event changes the notification, so it is never enqueued
  again.
\<close>

theorem retry_count_never_exceeds_max_retries:
  "tn_retry_count (run_events cfg evs (fresh ty)) \<le> max_retries cfg
   \<and> (tn_status (run_events cfg evs (fresh ty)) = Processing
        \<and> tn_retry_count (run_events cfg evs (fresh ty)) = max_retries cfg \<longrightarrow>
      tn_status (run_events cfg (evs @ [Channel_failed jitter]) (fresh ty)) = Dead_lettered
      \<and> tn_retry_count (run_events cfg (evs @ [Channel_failed jitter]) (fresh ty))
          = max_retries cfg
      \<and> tn_enqueued (run_events cfg (evs @ [Channel_failed jitter]) (fresh ty))
          = tn_enqueued (run_events cfg evs (fresh ty)) @ [(Failed_queue, 0)])
   \<and> (tn_status (run_events cfg evs (fresh ty)) = Dead_lettered \<longrightarrow>
      run_events cfg (evs @ later) (fresh ty) = run_events cfg evs (fresh ty))"
proof (intro conjI impI)
  show "tn_retry_count (run_events cfg evs (fresh ty)) \<le> max_retries cfg"
    by (rule run_events_retry_bound) (simp add: fresh_def)
next
  assume a: "tn_status (run_events cfg evs (fresh ty)) = Processing
        \<and> tn_retry_count (run_events cfg evs (fresh ty)) = max_retries cfg"
  let ?n = "run_events cfg evs (fresh ty)"
  from a have e: "apply_event cfg (Channel_failed jitter) ?n =
      Inr (?n\<lparr>tn_status := Dead_lettered, tn_enqueued := tn_enqueued ?n @ [(Failed_queue, 0)]\<rparr>)"
    by (intro apply_event_exhausted) simp_all
  show "tn_status (run_events cfg (evs @ [Channel_failed jitter]) (fresh ty)) = Dead_lettered"
    by (simp add: run_events_append e)
  show "tn_retry_count (run_events cfg (evs @ [Channel_failed jitter]) (fresh ty))
          = max_retries cfg"
    using a by (simp add: run_events_append e)
  show "tn_enqueued (run_events cfg (evs @ [Channel_failed jitter]) (fresh ty))
          = tn_enqueued (run_events cfg evs (fresh ty)) @ [(Failed_queue, 0)]"
    by (simp add: run_events_append e)
next
  assume "tn_status (run_events cfg evs (fresh ty)) = Dead_lettered"
  then show "run_events cfg (evs @ later) (fresh ty) = run_events cfg evs (fresh ty)"
    by (simp add: run_events_append run_events_dead_lettered)
qed


theorem retry_count_never_exceeds_max_retries_witness:
  "tn_retry_count (run_events \<lparr>base_delay = 1, max_delay = 60, max_retries = 1\<rparr>
      [Enqueued, Picked_up, Channel_failed 0, Picked_up] (fresh Email)) \<le> 1
   \<and> tn_status (run_events \<lparr>base_delay = 1, max_delay = 60, max_retries = 1\<rparr>
      ([Enqueued, Picked_up, Channel_failed 0, Picked_up] @ [Channel_failed 0]) (fresh Email))
      = Dead_lettered
   \<and> run_events \<lparr>base_delay = 1, max_delay = 60, max_retries = 1\<rparr>
      ([Enqueued, Picked_up, Channel_failed 0, Picked_up, Channel_failed 0]
         @ [Enqueued, Picked_up]) (fresh Email)
      = run_events \<lparr>base_delay = 1, max_delay = 60, max_retries = 1\<rparr>
      [Enqueued, Picked_up, Channel_failed 0, Picked_up, Channel_failed 0] (fresh Email)"
  using retry_count_never_exceeds_max_retries
      [of "\<lparr>base_delay = 1, max_delay = 60, max_retries = 1\<rparr>"
          "[Enqueued, Picked_up, Channel_failed 0, Picked_up]" Email 0 "[]"]
    retry_count_never_exceeds_max_retries
      [of "\<lparr>base_delay = 1, max_delay = 60, max_retries = 1\<rparr>"
          "[Enqueued, Picked_up, Channel_failed 0, Picked_up, Channel_failed 0]" Email 0
          "[Enqueued, Picked_up]"]
  by (simp add: apply_event_def transition_def onFailure_def backoff_delay_def route_def
      fresh_def)








section \<open>Claims about the Circuit Breaker\<close>

lemma guarded_send_closed_failure:
  assumes "mode b = Closed" and "\<not> outcomes ch (sends ch)"
    and "\<forall>s \<in> set (failures b). now - s < window cfg"
  shows "guarded_send cfg now (b, ch) =
           (DeliveryError,
            (if threshold cfg \<le> length (failures b) + 1
             then b\<lparr>mode := Open, failures := [], last_transition := now, probes := 0\<rparr>
             else b\<lparr>failures := failures b @ [now]\<rparr>),
            ch\<lparr>sends := sends ch + 1\<rparr>)"
proof -
  from assms(3) have "filter (\<lambda>t. now - t < window cfg) (failures b) = failures b"
    by (simp add: filter_id_conv)
  with assms(1,2) show ?thesis
    by (simp add: guarded_send_def acquire_def send_def report_def Let_def)
qed

lemma run_calls_failures_open:
  assumes "mode b = Closed" and "ts \<noteq> []"
    and "length (failures b) + length ts = threshold cfg"
    and "\<forall>s \<in> set (failures b @ ts). \<forall>t \<in> set ts. t - s < window cfg"
    and "\<forall>i < length ts. \<not> outcomes ch (sends ch + i)"
  shows "mode (fst (run_calls cfg ts (b, ch))) = Open
    \<and> last_transition (fst (run_calls cfg ts (b, ch))) = last ts
    \<and> sends (snd (run_calls cfg ts (b, ch))) = sends ch + length ts"
  using assms
proof (induction ts arbitrary: b ch)
  case Nil
  then show ?case by simp
next
  case (Cons now rest)
  from Cons.prems(5) have f0: "\<not> outcomes ch (sends ch)" by auto
  from Cons.prems(4) have w: "\<forall>s \<in> set (failures b). now - s < window cfg" by simp
  note step = guarded_send_closed_failure [OF Cons.prems(1) f0 w]
  show ?case
  proof (cases "rest = []")
    case True
    with Cons.prems(3) have "threshold cfg \<le> length (failures b) + 1" by simp
    with step True show ?thesis by simp
  next
    case False
    with Cons.prems(3) have lt: "\<not> threshold cfg \<le> length (failures b) + 1"
      by (cases rest) simp_all
    let ?b = "b\<lparr>failures := failures b @ [now]\<rparr>"
    let ?ch = "ch\<lparr>sends := sends ch + 1\<rparr>"
    have 1: "mode ?b = Closed" using Cons.prems(1) by simp
    have 3: "length (failures ?b) + length rest = threshold cfg"
      using Cons.prems(3) by simp
    have 4: "\<forall>s \<in> set (failures ?b @ rest). \<forall>t \<in> set rest. t - s < window cfg"
      using Cons.prems(4) by auto
    have 5: "\<forall>i < length rest. \<not> outcomes ?ch (sends ?ch + i)"
    proof (intro allI impI)
      fix i assume "i < length rest"
      then have "Suc i < length (now # rest)" by simp
      with Cons.prems(5) have "\<not> outcomes ch (sends ch + Suc i)" by blast
      then show "\<not> outcomes ?ch (sends ?ch + i)" by simp
    qed
    from Cons.IH [OF 1 False 3 4 5] step lt False show ?thesis by simp
  qed
qed

lemma sorted_span:
  fixes ts :: "int list"
  assumes "sorted ts" and "s \<in> set ts" and "t \<in> set ts"
  shows "t - s \<le> last ts - hd ts"
proof -
  from assms(2) have ne: "ts \<noteq> []" by auto
  from assms(1,2) ne have "hd ts \<le> s"
    by (cases ts) auto
  moreover from assms(1,3) ne have "t \<le> last ts"
    by (induction ts) (auto split: if_splits)
  ultimately show ?thesis by simp
qed

lemma guarded_send_open_rejects:
  assumes "mode b = Open" and "now - last_transition b < cooldown cfg"
  shows "guarded_send cfg now (b, ch) = (CircuitOpen, b, ch)"
  using assms by (simp add: guarded_send_def acquire_def)

lemma acquire_after_cooldown:
  assumes "mode b = Open" and "cooldown cfg \<le> now - last_transition b"
  shows "acquire cfg now b =
           (Permit, b\<lparr>mode := Half_open, last_transition := now, probes := 1\<rparr>)"
  using assms by (simp add: acquire_def)

lemma acquire_while_probing:
  assumes "mode b = Half_open" and "probes b = 1"
  shows "acquire cfg t b = (Reject, b)"
  using assms by (simp add: acquire_def)

lemma report_probe:
  assumes "mode b = Half_open"
  shows "mode (report cfg t ok b) = (if ok then Closed else Open)"
  using assms by (simp add: report_def)


text \<open>
  Claim C4 (breaker correctness): a closed breaker with no failures counted, given as
  many calls as the threshold, all failing, at times that span less than the window,
  is open afterwards, and each of those calls reached the channel. While it is open and
  the cooldown has not elapsed, a call fails with \<open>CircuitOpen\<close> and leaves the
  breaker and the channel as they were: \<open>send\<close> is not invoked. Once the cooldown
  has elapsed, the next request is admitted and the breaker is half-open; every
  further request is rejected while that probe is out; the probe's success closes the
  breaker and its failure opens it again.
\<close>

theorem breaker_opens_probes_and_recovers:
  "(mode b = Closed \<and> failures b = [] \<and> 0 < threshold cfg \<and> length ts = threshold cfg
      \<and> sorted ts \<and> last ts - hd ts < window cfg
      \<and> (\<forall>i < threshold cfg. \<not> outcomes ch (sends ch + i)) \<longrightarrow>
        mode (fst (run_calls cfg ts (b, ch))) = Open
        \<and> last_transition (fst (run_calls cfg ts (b, ch))) = last ts
        \<and> sends (snd (run_calls cfg ts (b, ch))) = sends ch + threshold cfg)
   \<and> (mode b = Open \<and> now - last_transition b < cooldown cfg \<longrightarrow>
        guarded_send cfg now (b, ch) = (CircuitOpen, b, ch))
   \<and> (mode b = Open \<and> cooldown cfg \<le> now - last_transition b \<longrightarrow>
        fst (acquire cfg now b) = Permit
        \<and> mode (snd (acquire cfg now b)) = Half_open
        \<and> (\<forall>t. acquire cfg t (snd (acquire cfg now b)) = (Reject, snd (acquire cfg now b)))
        \<and> (\<forall>t. guarded_send cfg t (snd (acquire cfg now b), ch)
                = (CircuitOpen, snd (acquire cfg now b), ch))
        \<and> (\<forall>t. mode (report cfg t True (snd (acquire cfg now b))) = Closed)
        \<and> (\<forall>t. mode (report cfg t False (snd (acquire cfg now b))) = Open)
        \<and> sends (snd (snd (guarded_send cfg now (b, ch)))) = sends ch + 1
        \<and> mode (fst (snd (guarded_send cfg now (b, ch))))
            = (if outcomes ch (sends ch) then Closed else Open))"
proof (intro conjI impI)
  assume a: "mode b = Closed \<and> failures b = [] \<and> 0 < threshold cfg \<and> length ts = threshold cfg
      \<and> sorted ts \<and> last ts - hd ts < window cfg
      \<and> (\<forall>i < threshold cfg. \<not> outcomes ch (sends ch + i))"
  then have ne: "ts \<noteq> []" by auto
  have span: "\<forall>s \<in> set (failures b @ ts). \<forall>t \<in> set ts. t - s < window cfg"
  proof (intro ballI)
    fix s t assume "s \<in> set (failures b @ ts)" and t: "t \<in> set ts"
    with a have "s \<in> set ts" by simp
    with a t have "t - s \<le> last ts - hd ts" by (intro sorted_span) simp_all
    with a show "t - s < window cfg" by simp
  qed
  from a have "mode b = Closed" and "length (failures b) + length ts = threshold cfg"
    and "\<forall>i < length ts. \<not> outcomes ch (sends ch + i)"
    by simp_all
  from run_calls_failures_open [OF this(1) ne this(2) span this(3)] a
  show "mode (fst (run_calls cfg ts (b, ch))) = Open"
    and "last_transition (fst (run_calls cfg ts (b, ch))) = last ts"
    and "sends (snd (run_calls cfg ts (b, ch))) = sends ch + threshold cfg"
    by simp_all
next
  assume "mode b = Open \<and> now - last_transition b < cooldown cfg"
  then show "guarded_send cfg now (b, ch) = (CircuitOpen, b, ch)"
    by (simp add: guarded_send_open_rejects)
next
  assume a: "mode b = Open \<and> cooldown cfg \<le> now - last_transition b"
  then have acq: "acquire cfg now b =
      (Permit, b\<lparr>mode := Half_open, last_transition := now, probes := 1\<rparr>)"
    by (simp add: acquire_after_cooldown)
  show "fst (acquire cfg now b) = Permit" and "mode (snd (acquire cfg now b)) = Half_open"
    by (simp_all add: acq)
  show "\<forall>t. acquire cfg t (snd (acquire cfg now b)) = (Reject, snd (acquire cfg now b))"
    by (simp add: acq acquire_while_probing)
  show "\<forall>t. guarded_send cfg t (snd (acquire cfg now b), ch)
                = (CircuitOpen, snd (acquire cfg now b), ch)"
    by (simp add: acq guarded_send_def acquire_while_probing)
  show "\<forall>t. mode (report cfg t True (snd (acquire cfg now b))) = Closed"
    and "\<forall>t. mode (report cfg t False (snd (acquire cfg now b))) = Open"
    by (simp_all add: acq report_probe)
  show "sends (snd (snd (guarded_send cfg now (b, ch)))) = sends ch + 1"
    by (simp add: guarded_send_def acq send_def)
  show "mode (fst (snd (guarded_send cfg now (b, ch))))
            = (if outcomes ch (sends ch) then Closed else Open)"
    by (simp add: guarded_send_def acq send_def report_probe)
qed


theorem breaker_opens_probes_and_recovers_witness:
  "fst (run_calls smtp_breaker_config [1000, 2000, 3000] (closed_breaker, failing_channel))
      = tripped_breaker
   \<and> guarded_send smtp_breaker_config 4000
        (tripped_breaker, failing_channel\<lparr>sends := 3\<rparr>)
      = (CircuitOpen, tripped_breaker, failing_channel\<lparr>sends := 3\<rparr>)
   \<and> acquire smtp_breaker_config 33000 tripped_breaker
      = (Permit, tripped_breaker\<lparr>mode := Half_open, last_transition := 33000, probes := 1\<rparr>)
   \<and> mode (fst (snd (guarded_send smtp_breaker_config 33000
        (tripped_breaker, failing_channel\<lparr>sends := 3\<rparr>)))) = Closed"
  using breaker_opens_probes_and_recovers
      [of closed_breaker smtp_breaker_config "[1000, 2000, 3000]" failing_channel]
    breaker_opens_probes_and_recovers
      [of tripped_breaker smtp_breaker_config _ "failing_channel\<lparr>sends := 3\<rparr>" 4000]
    breaker_opens_probes_and_recovers
      [of tripped_breaker smtp_breaker_config _ "failing_channel\<lparr>sends := 3\<rparr>" 33000]
  by (simp add: smtp_breaker_config_def closed_breaker_def tripped_breaker_def
      failing_channel_def guarded_send_def acquire_def report_def send_def Let_def)

end
